theory Spec2Isabelle
  imports Complex_Main "HOL-Library.Char_ord" "HOL-Library.List_Lexorder"
begin

section \<open>Python strings\<close>

text \<open>
  Text is modelled as \<^typ>\<open>string\<close>, a list of 8-bit characters. The case mappings and the
  whitespace class below are those of Python's \<^verbatim>\<open>str\<close> on ASCII text; characters from
  128 on are left unchanged by \<open>lower\<close> and \<open>upper\<close> and are not whitespace. The two
  non-ASCII symbols the scripts print are given by their UTF-8 bytes.
\<close>

definition lower_char :: "char \<Rightarrow> char" where
  "lower_char c = (if CHR ''A'' \<le> c \<and> c \<le> CHR ''Z'' then char_of (of_char c + (32::nat)) else c)"

definition upper_char :: "char \<Rightarrow> char" where
  "upper_char c = (if CHR ''a'' \<le> c \<and> c \<le> CHR ''z'' then char_of (of_char c - (32::nat)) else c)"

text \<open>\<^verbatim>\<open>s.lower()\<close> and \<^verbatim>\<open>s.upper()\<close>.\<close>

definition lower :: "string \<Rightarrow> string" where
  "lower s = map lower_char s"

definition upper :: "string \<Rightarrow> string" where
  "upper s = map upper_char s"

text \<open>
  The ASCII characters for which \<^verbatim>\<open>str.isspace\<close> holds, which are also the ones the
  regular-expression class \<^verbatim>\<open>\s\<close> accepts: tab, line feed, vertical tab, form feed,
  carriage return, the four separators 0x1C to 0x1F, and space.
\<close>

definition isspace :: "char \<Rightarrow> bool" where
  "isspace c = (let n = (of_char c :: nat) in (9 \<le> n \<and> n \<le> 13) \<or> (28 \<le> n \<and> n \<le> 32))"

text \<open>\<^verbatim>\<open>s.strip()\<close>: whitespace removed from both ends.\<close>

definition strip :: "string \<Rightarrow> string" where
  "strip s = rev (dropWhile isspace (rev (dropWhile isspace s)))"

text \<open>\<^verbatim>\<open>sep.join(xs)\<close>.\<close>

fun join :: "string \<Rightarrow> string list \<Rightarrow> string" where
  "join sep [] = []"
| "join sep [x] = x"
| "join sep (x # y # ys) = x @ sep @ join sep (y # ys)"

text \<open>\<^verbatim>\<open>str(n)\<close> for a non-negative integer: its decimal digits.\<close>

definition digit_char :: "nat \<Rightarrow> char" where
  "digit_char d = char_of (48 + d)"

fun str_nat :: "nat \<Rightarrow> string" where
  "str_nat n = (if n < 10 then [digit_char n] else str_nat (n div 10) @ [digit_char (n mod 10)])"

declare str_nat.simps [simp del]

text \<open>The format specifications \<^verbatim>\<open>{s:<w}\<close> and \<^verbatim>\<open>{s:>w}\<close>: padding with spaces to width \<open>w\<close>.\<close>

definition ljust :: "nat \<Rightarrow> string \<Rightarrow> string" where
  "ljust w s = s @ replicate (w - length s) CHR '' ''"

definition rjust :: "nat \<Rightarrow> string \<Rightarrow> string" where
  "rjust w s = replicate (w - length s) CHR '' '' @ s"

definition newline :: string where
  "newline = [CHR 0x0A]"

text \<open>U+2713 (check mark) and U+26A0 U+FE0F (warning sign), in UTF-8.\<close>

definition check_mark :: string where
  "check_mark = [CHR 0xE2, CHR 0x9C, CHR 0x93]"

definition warning_sign :: string where
  "warning_sign = [CHR 0xE2, CHR 0x9A, CHR 0xA0, CHR 0xEF, CHR 0xB8, CHR 0x8F]"

text \<open>The rules \<^verbatim>\<open>"=" * 60\<close> and \<^verbatim>\<open>"-" * 60\<close>, and the quote character.\<close>

definition banner :: string where
  "banner = replicate 60 CHR ''=''"

definition rule_line :: string where
  "rule_line = replicate 60 CHR ''-''"

definition apostrophe :: string where
  "apostrophe = [CHR 0x27]"

section \<open>Regular-expression search\<close>

text \<open>
  The group \<^verbatim>\<open>([^.]+)\<close> at the start of \<open>s\<close>: the longest run of characters other
  than a full stop, which must not be empty. The class \<^verbatim>\<open>[^.]\<close> accepts a line feed.
\<close>

definition group_not_dot :: "string \<Rightarrow> string option" where
  "group_not_dot s = (let g = takeWhile (\<lambda>c. c \<noteq> CHR ''.'') s in if g = [] then None else Some g)"

text \<open>
  \<^verbatim>\<open>\s*([^.]+)\<close> at the start of \<open>s\<close>, with \<^verbatim>\<open>\s*\<close> taking \<open>k\<close> characters: the greedy
  star first takes all the leading whitespace and gives characters back one at a time
  while the group cannot match.
\<close>

fun backtrack_spaces :: "string \<Rightarrow> nat \<Rightarrow> string option" where
  "backtrack_spaces s k =
     (case group_not_dot (drop k s) of
        Some g \<Rightarrow> Some g
      | None \<Rightarrow> (case k of 0 \<Rightarrow> None | Suc j \<Rightarrow> backtrack_spaces s j))"

declare backtrack_spaces.simps [simp del]

text \<open>A match of \<^verbatim>\<open>lead([^.]+)\<close>, or of \<^verbatim>\<open>lead\s*([^.]+)\<close>, anchored at the start of \<open>s\<close>.\<close>

definition match_here :: "string \<Rightarrow> bool \<Rightarrow> string \<Rightarrow> string option" where
  "match_here lead spaces s =
     (if take (length lead) s = lead then
        (let rest = drop (length lead) s in
         if spaces then backtrack_spaces rest (length (takeWhile isspace rest))
         else group_not_dot rest)
      else None)"

text \<open>
  \<^verbatim>\<open>re.search\<close>: the match at the leftmost position of \<open>s\<close> that has one; the result is
  group 1.
\<close>

fun re_search :: "string \<Rightarrow> bool \<Rightarrow> string \<Rightarrow> string option" where
  "re_search lead spaces [] = match_here lead spaces []"
| "re_search lead spaces (c # cs) =
     (case match_here lead spaces (c # cs) of
        Some g \<Rightarrow> Some g
      | None \<Rightarrow> re_search lead spaces cs)"

section \<open>The fact-check auditor\<close>

record result =
  category :: string
  expected :: string
  actual :: "string option"
  status :: string

record auditor =
  expected_values :: "(string \<times> string) list"
  source_file :: string
  report_file :: string
  history_log :: string
  content :: "string option"

text \<open>\<^verbatim>\<open>FactCheckAuditor.__init__\<close>; the dictionary keeps its insertion order.\<close>

definition FactCheckAuditor :: auditor where
  "FactCheckAuditor =
     \<lparr> expected_values =
         [(''Deadline'', ''January 15th''),
          (''Lead'', ''Sarah Chen''),
          (''Budget'', ''$50,000''),
          (''Risk Level'', ''Low'')],
       source_file = ''project_specs.txt'',
       report_file = ''audit_report.txt'',
       history_log = ''audit_history.log'',
       content = None \<rparr>"

text \<open>\<^verbatim>\<open>extract_value\<close>: \<open>None\<close> when there is no content, or it is empty.\<close>

definition extract_value :: "auditor \<Rightarrow> string \<Rightarrow> string option" where
  "extract_value self cat =
     (case content self of
        None \<Rightarrow> None
      | Some c \<Rightarrow>
          if c = [] then None
          else
            (let content_lower = lower c in
             if cat = ''Deadline'' then
               map_option strip (re_search ''deadline is '' False content_lower)
             else if cat = ''Lead'' then
               map_option strip (re_search ''lead engineer is '' False content_lower)
             else if cat = ''Budget'' then
               map_option strip (re_search ''budget is '' False content_lower)
             else if cat = ''Risk Level'' then
               map_option strip (re_search ''risk level:'' True content_lower)
             else None))"

text \<open>
  The body of the loop of \<^verbatim>\<open>audit\<close> for one configured category: the result appended
  and the line printed.
\<close>

definition audit_category :: "auditor \<Rightarrow> string \<times> string \<Rightarrow> result \<times> string" where
  "audit_category self item =
     (let cat = fst item; exp_v = snd item; act = extract_value self cat;
          (st, line) =
            (case act of
               None \<Rightarrow> (''DATA MISSING'', cat @ '': '' @ ''DATA MISSING'')
             | Some a \<Rightarrow>
                 if lower a = lower exp_v then
                   (''MATCH'', cat @ '': '' @ ''MATCH'' @ '' ('' @ exp_v @ '')'')
                 else if cat = ''Risk Level'' \<and> lower a \<in> set [''medium'', ''high''] then
                   (''CRITICAL WARNING'',
                    cat @ '': '' @ ''CRITICAL WARNING'' @ '' (Expected: '' @ exp_v @ '', Found: '' @ upper a @ '')'')
                 else
                   (''MISMATCH'',
                    cat @ '': '' @ ''MISMATCH'' @ '' (Expected: '' @ exp_v @ '', Found: '' @ a @ '')''))
      in (\<lparr> category = cat, expected = exp_v, actual = act, status = st \<rparr>, line))"

fun audit_loop :: "auditor \<Rightarrow> (string \<times> string) list \<Rightarrow> result list \<Rightarrow> string list
    \<Rightarrow> result list \<times> string list" where
  "audit_loop self [] results out = (results, out)"
| "audit_loop self (item # items) results out =
     (let (r, line) = audit_category self item
      in audit_loop self items (results @ [r]) (out @ [line]))"

text \<open>\<^verbatim>\<open>audit\<close>: the results, one per configured category, and the lines printed.\<close>

definition audit :: "auditor \<Rightarrow> result list \<times> string list" where
  "audit self =
     (let (results, out) = audit_loop self (expected_values self) [] [banner, ''AUDIT IN PROGRESS'', banner]
      in (results, out @ [banner]))"

section \<open>Files, clock and console\<close>

text \<open>
  The part of the outside world the scripts touch. \<open>files\<close> maps each existing path to
  its text; \<open>read_failure\<close> and \<open>write_failure\<close> give, for a path whose opening or
  reading (respectively opening for writing) raises, the text of the exception; \<open>now\<close>
  is the local time as \<^verbatim>\<open>strftime("%Y-%m-%d %H:%M:%S")\<close> renders it; \<open>console\<close> holds
  the argument of every \<^verbatim>\<open>print\<close> call so far.
\<close>

record world =
  files :: "string \<rightharpoonup> string"
  read_failure :: "string \<rightharpoonup> string"
  write_failure :: "string \<rightharpoonup> string"
  now :: string
  console :: "string list"

definition print :: "world \<Rightarrow> string \<Rightarrow> world" where
  "print w s = w\<lparr>console := console w @ [s]\<rparr>"

text \<open>An exception that no handler of the script catches.\<close>

datatype error = AttributeError

text \<open>\<^verbatim>\<open>load_file\<close>: the flag returned, the auditor and the world afterwards.\<close>

definition load_file :: "auditor \<Rightarrow> world \<Rightarrow> bool \<times> auditor \<times> world" where
  "load_file self w =
     (case files w (source_file self) of
        None \<Rightarrow>
          (False, self,
           print w (''Error: File '' @ apostrophe @ source_file self @ apostrophe @ '' does not exist.''))
      | Some text \<Rightarrow>
          (case read_failure w (source_file self) of
             Some e \<Rightarrow> (False, self, print w (''Error reading file: '' @ e))
           | None \<Rightarrow>
               (True, self\<lparr>content := Some text\<rparr>,
                print (print w (check_mark @ '' Loaded: '' @ source_file self))
                  (''Content: '' @ text @ newline))))"

text \<open>
  The loop over the critical warnings in \<^verbatim>\<open>generate_report\<close>; \<^verbatim>\<open>.upper()\<close> on an
  absent actual value raises.
\<close>

fun report_warning_lines :: "result list \<Rightarrow> error + string list" where
  "report_warning_lines [] = Inr []"
| "report_warning_lines (r # rs) =
     (case actual r of
        None \<Rightarrow> Inl AttributeError
      | Some a \<Rightarrow>
          (case report_warning_lines rs of
             Inl e \<Rightarrow> Inl e
           | Inr ls \<Rightarrow>
               Inr ([warning_sign @ ''  '' @ category r @ '': '' @ upper a,
                     ''    Expected: '' @ expected r] @ ls)))"

definition report_result_lines :: "result \<Rightarrow> string list" where
  "report_result_lines r =
     [newline @ ''Category: '' @ category r,
      ''Expected Value: '' @ expected r,
      (case actual r of
         Some a \<Rightarrow> ''Actual Value: '' @ a
       | None \<Rightarrow> ''Actual Value: NOT FOUND''),
      ''Status: '' @ status r,
      rule_line]"

text \<open>\<^verbatim>\<open>sum(1 for r in results if r['status'] == s)\<close>.\<close>

definition count_status :: "string \<Rightarrow> result list \<Rightarrow> nat" where
  "count_status s results = sum_list (map (\<lambda>r. 1) (filter (\<lambda>r. status r = s) results))"

definition report_summary_lines :: "result list \<Rightarrow> string list" where
  "report_summary_lines results =
     (let matches = count_status ''MATCH'' results;
          mismatches = count_status ''MISMATCH'' results;
          missing = count_status ''DATA MISSING'' results;
          critical = count_status ''CRITICAL WARNING'' results
      in [[], ''SUMMARY:'',
          ''  MATCH: '' @ str_nat matches,
          ''  MISMATCH: '' @ str_nat mismatches,
          ''  CRITICAL WARNING: '' @ str_nat critical,
          ''  DATA MISSING: '' @ str_nat missing,
          [], banner])"

text \<open>The list \<^verbatim>\<open>report_lines\<close> that \<^verbatim>\<open>generate_report\<close> builds.\<close>

definition report_lines :: "auditor \<Rightarrow> result list \<Rightarrow> error + string list" where
  "report_lines self results =
     (let head = [banner, ''FACT-CHECK AUDIT REPORT'', banner,
                  ''Source File: '' @ source_file self,
                  ''Report Generated: fact_check_auditor.py'',
                  banner, []];
          critical_warnings = filter (\<lambda>r. status r = ''CRITICAL WARNING'') results
      in case (if critical_warnings \<noteq> [] then
                 (case report_warning_lines critical_warnings of
                    Inl e \<Rightarrow> Inl e
                  | Inr ls \<Rightarrow> Inr ([''!!! CRITICAL WARNINGS DETECTED !!!'', banner] @ ls @ [banner, []]))
               else Inr []) of
           Inl e \<Rightarrow> Inl e
         | Inr block \<Rightarrow>
             Inr (head @ block @ [''VALIDATION RESULTS:'', rule_line]
                  @ concat (map report_result_lines results)
                  @ report_summary_lines results))"

text \<open>
  \<^verbatim>\<open>generate_report\<close>: the report file is opened with mode \<^verbatim>\<open>'w'\<close>, which replaces its
  text; a failure of that is printed and answered with \<open>False\<close>.
\<close>

definition generate_report :: "auditor \<Rightarrow> result list \<Rightarrow> world \<Rightarrow> error \<times> world + bool \<times> world" where
  "generate_report self results w =
     (case report_lines self results of
        Inl e \<Rightarrow> Inl (e, w)
      | Inr ls \<Rightarrow>
          (let report_content = join newline ls in
           case write_failure w (report_file self) of
             None \<Rightarrow>
               Inr (True,
                    print (w\<lparr>files := (files w)(report_file self \<mapsto> report_content)\<rparr>)
                      (newline @ check_mark @ '' Report generated: '' @ report_file self))
           | Some e \<Rightarrow> Inr (False, print w (newline @ ''Error generating report: '' @ e))))"

text \<open>The loops over the critical warnings, mismatches and missing data in \<^verbatim>\<open>log_to_history\<close>.\<close>

fun log_warning_lines :: "result list \<Rightarrow> error + string list" where
  "log_warning_lines [] = Inr []"
| "log_warning_lines (c # cs) =
     (case actual c of
        None \<Rightarrow> Inl AttributeError
      | Some a \<Rightarrow>
          (case log_warning_lines cs of
             Inl e \<Rightarrow> Inl e
           | Inr ls \<Rightarrow>
               Inr ((''  - '' @ category c @ '': Expected '' @ apostrophe @ expected c @ apostrophe
                     @ '', Found '' @ apostrophe @ upper a @ apostrophe) # ls)))"

definition log_mismatch_line :: "result \<Rightarrow> string" where
  "log_mismatch_line m =
     ''  - '' @ category m @ '': Expected '' @ apostrophe @ expected m @ apostrophe
     @ '', Found '' @ apostrophe @ (case actual m of Some a \<Rightarrow> a | None \<Rightarrow> ''None'') @ apostrophe"

definition log_missing_line :: "result \<Rightarrow> string" where
  "log_missing_line m = ''  - '' @ category m @ '': '' @ expected m"

text \<open>The list \<^verbatim>\<open>log_entry\<close> that \<^verbatim>\<open>log_to_history\<close> builds for the time stamp \<open>ts\<close>.\<close>

definition log_entry :: "string \<Rightarrow> result list \<Rightarrow> error + string list" where
  "log_entry ts results =
     (let matches = count_status ''MATCH'' results;
          mismatches = filter (\<lambda>r. status r = ''MISMATCH'') results;
          missing = filter (\<lambda>r. status r = ''DATA MISSING'') results;
          critical_warnings = filter (\<lambda>r. status r = ''CRITICAL WARNING'') results
      in case (if critical_warnings \<noteq> [] then
                 (case log_warning_lines critical_warnings of
                    Inl e \<Rightarrow> Inl e
                  | Inr ls \<Rightarrow>
                      Inr ((warning_sign @ ''  CRITICAL WARNINGS: '' @ str_nat (length critical_warnings)) # ls))
               else Inr []) of
           Inl e \<Rightarrow> Inl e
         | Inr block \<Rightarrow>
             Inr ([rule_line, ''AUDIT RUN: '' @ ts, ''Total Matches: '' @ str_nat matches]
                  @ block
                  @ (if mismatches \<noteq> [] then
                       (''Mismatches Found: '' @ str_nat (length mismatches)) # map log_mismatch_line mismatches
                     else if critical_warnings = [] then [''Mismatches Found: None'']
                     else [])
                  @ (if missing \<noteq> [] then
                       (''Data Missing: '' @ str_nat (length missing)) # map log_missing_line missing
                     else [])
                  @ [rule_line, []]))"

text \<open>The header written when the history log is created.\<close>

definition history_header :: string where
  "history_header = banner @ newline @ ''AUDIT HISTORY LOG'' @ newline @ banner @ newline @ newline"

text \<open>
  \<^verbatim>\<open>log_to_history\<close>: mode \<^verbatim>\<open>'a'\<close> when the log exists, which writes after its text, and
  mode \<^verbatim>\<open>'w'\<close> with the header first otherwise.
\<close>

definition log_to_history :: "auditor \<Rightarrow> result list \<Rightarrow> world \<Rightarrow> error \<times> world + bool \<times> world" where
  "log_to_history self results w =
     (case log_entry (now w) results of
        Inl e \<Rightarrow> Inl (e, w)
      | Inr ls \<Rightarrow>
          (let log_content = join newline ls in
           case write_failure w (history_log self) of
             Some e \<Rightarrow> Inr (False, print w (''Error logging to history: '' @ e))
           | None \<Rightarrow>
               (let text = (case files w (history_log self) of
                              Some old \<Rightarrow> old @ log_content
                            | None \<Rightarrow> history_header @ log_content)
                in Inr (True,
                        print (w\<lparr>files := (files w)(history_log self \<mapsto> text)\<rparr>)
                          (check_mark @ '' History logged: '' @ history_log self)))))"

text \<open>\<^verbatim>\<open>run\<close>: the flag returned, or the exception that escapes, with the world afterwards.\<close>

definition run :: "auditor \<Rightarrow> world \<Rightarrow> error \<times> world + bool \<times> auditor \<times> world" where
  "run self w =
     (let w1 = print (print (print w (newline @ banner)) ''FACT-CHECK AUDITOR'') (banner @ newline);
          (loaded, self1, w2) = load_file self w1
      in if \<not> loaded then Inr (False, self1, w2)
         else
           (let (results, out) = audit self1;
                w3 = w2\<lparr>console := console w2 @ out\<rparr>
            in case generate_report self1 results w3 of
                 Inl ew \<Rightarrow> Inl ew
               | Inr (reported, w4) \<Rightarrow>
                   (case log_to_history self1 results w4 of
                      Inl ew \<Rightarrow> Inl ew
                    | Inr (logged, w5) \<Rightarrow>
                        Inr (True, self1, print w5 (newline @ ''Audit complete!'')))))"

section \<open>The directory scanner\<close>

text \<open>
  Sizes are exact rationals. A file size is an integer; dividing it by 1024 is exact in
  binary floating point for sizes below \<open>2^53\<close>, so the rationals below are the values
  of the script's floats for every such size.
\<close>

definition round_half_even :: "rat \<Rightarrow> int" where
  "round_half_even x =
     (let f = \<lfloor>x\<rfloor>; d = x - of_int f
      in if d < 1 / 2 then f else if 1 / 2 < d then f + 1 else if even f then f else f + 1)"

text \<open>
  The format \<^verbatim>\<open>{x:.2f}\<close> of a non-negative value: the nearest multiple of one hundredth,
  a tie going to the even one, written with two decimals.
\<close>

definition format_2f :: "rat \<Rightarrow> string" where
  "format_2f x =
     (let h = nat (round_half_even (x * 100))
      in str_nat (h div 100) @ ''.'' @ [digit_char (h mod 100 div 10), digit_char (h mod 10)])"

fun format_size_loop :: "string list \<Rightarrow> rat \<Rightarrow> string" where
  "format_size_loop [] size_bytes = format_2f size_bytes @ '' PB''"
| "format_size_loop (u # units) size_bytes =
     (if size_bytes < 1024 then format_2f size_bytes @ '' '' @ u
      else format_size_loop units (size_bytes / 1024))"

definition format_size :: "nat \<Rightarrow> string" where
  "format_size size_bytes = format_size_loop [''B'', ''KB'', ''MB'', ''GB'', ''TB''] (of_nat size_bytes)"

text \<open>
  An entry of a directory: its name, whether it is a regular file, and what \<^verbatim>\<open>stat\<close>
  gives as its size (\<open>None\<close> when \<^verbatim>\<open>stat\<close> raises).
\<close>

record entry =
  name :: string
  is_file :: bool
  st_size :: "nat option"

text \<open>What the file system answers for the path given to \<^verbatim>\<open>scan_directory\<close>.\<close>

record directory =
  path_exists :: bool
  is_dir :: bool
  absolute :: string
  iterdir :: "entry list"

text \<open>The loop over the files: the running total and the lines printed.\<close>

fun scan_loop :: "entry list \<Rightarrow> nat \<Rightarrow> string list \<Rightarrow> nat \<times> string list" where
  "scan_loop [] total_size out = (total_size, out)"
| "scan_loop (file # rest) total_size out =
     (case st_size file of
        Some sz \<Rightarrow>
          scan_loop rest (total_size + sz)
            (out @ [ljust 40 (name file) @ '' '' @ rjust 15 (format_size sz)])
      | None \<Rightarrow>
          scan_loop rest total_size
            (out @ [ljust 40 (name file) @ '' '' @ rjust 15 ''Error'']))"

text \<open>\<^verbatim>\<open>scan_directory\<close>: the arguments of its \<^verbatim>\<open>print\<close> calls, in order.\<close>

definition scan_directory :: "string \<Rightarrow> directory \<Rightarrow> string list" where
  "scan_directory directory_path directory =
     (if \<not> path_exists directory then
        [''Error: Directory '' @ apostrophe @ directory_path @ apostrophe @ '' does not exist.'']
      else if \<not> is_dir directory then
        [''Error: '' @ apostrophe @ directory_path @ apostrophe @ '' is not a directory.'']
      else
        (let head = [newline @ banner, ''Scanning: '' @ absolute directory, banner @ newline];
             fs = filter is_file (iterdir directory)
         in if fs = [] then head @ [''No files found in this directory.'']
            else
              (let sorted_files = sort_key (\<lambda>x. lower (name x)) fs;
                   table_head = [ljust 40 ''File Name'' @ '' '' @ rjust 15 ''Size'',
                                 replicate 40 CHR ''-'' @ '' '' @ replicate 15 CHR ''-''];
                   (total_size, out) = scan_loop sorted_files 0 (head @ table_head)
               in out @ [replicate 40 CHR ''-'' @ '' '' @ replicate 15 CHR ''-'',
                         ljust 40 ''Total:'' @ '' '' @ rjust 15 (format_size total_size),
                         newline @ ''Total files: '' @ str_nat (length sorted_files),
                         banner @ newline])))"

section \<open>Classification of the categories\<close>

lemma audit_loop_eq:
  "audit_loop self items results out =
     (results @ map (\<lambda>item. fst (audit_category self item)) items,
      out @ map (\<lambda>item. snd (audit_category self item)) items)"
  by (induction items arbitrary: results out) (simp_all add: case_prod_beta)

lemma audit_results:
  "fst (audit self) = map (\<lambda>item. fst (audit_category self item)) (expected_values self)"
  by (simp add: audit_def audit_loop_eq Let_def)

lemma audit_category_result:
  "fst (audit_category self (cat, exp_v)) =
     \<lparr> category = cat, expected = exp_v, actual = extract_value self cat,
       status =
         (case extract_value self cat of
            None \<Rightarrow> ''DATA MISSING''
          | Some a \<Rightarrow>
              if lower a = lower exp_v then ''MATCH''
              else if cat = ''Risk Level'' \<and> (lower a = ''medium'' \<or> lower a = ''high'')
                then ''CRITICAL WARNING''
              else ''MISMATCH'') \<rparr>"
  by (simp add: audit_category_def Let_def split: option.split)

text \<open>
  C1. The result of \<^verbatim>\<open>audit\<close> for the \<open>i\<close>-th configured category, when a value was
  extracted that differs from the expected one up to case: its status is CRITICAL WARNING
  if the category is \<open>Risk Level\<close> and the value in lower case is \<open>medium\<close> or \<open>high\<close>,
  and MISMATCH for every other category and every other value.
\<close>

theorem risk_escalation:
  assumes "i < length (expected_values self)"
    and "expected_values self ! i = (cat, exp_v)"
    and "extract_value self cat = Some a"
    and "lower a \<noteq> lower exp_v"
  shows "length (fst (audit self)) = length (expected_values self) \<and>
         fst (audit self) ! i =
           \<lparr> category = cat, expected = exp_v, actual = Some a,
             status = (if cat = ''Risk Level'' \<and> (lower a = ''medium'' \<or> lower a = ''high'')
                       then ''CRITICAL WARNING'' else ''MISMATCH'') \<rparr>"
  using assms by (simp add: audit_results audit_category_result)

theorem risk_escalation_witness:
  "fst (audit (FactCheckAuditor\<lparr>content := Some ''Risk Level: High.''\<rparr>)) ! 3 =
      \<lparr> category = ''Risk Level'', expected = ''Low'', actual = Some ''high'',
        status = ''CRITICAL WARNING'' \<rparr>"
proof -
  let ?self = "FactCheckAuditor\<lparr>content := Some ''Risk Level: High.''\<rparr>"
  have h1: "3 < length (expected_values ?self)" by (simp add: FactCheckAuditor_def)
  have h2: "expected_values ?self ! 3 = (''Risk Level'', ''Low'')" by (simp add: FactCheckAuditor_def)
  have h3: "extract_value ?self ''Risk Level'' = Some ''high''" by code_simp
  have h4: "lower ''high'' \<noteq> lower ''Low''" by code_simp
  have h5: "lower ''high'' = ''high''" by code_simp
  show ?thesis using risk_escalation [OF h1 h2 h3 h4] h5 by simp
qed

text \<open>
  C3. The audit of the example text against the fixed expected values: Deadline is a
  MISMATCH, Lead and Budget are a MATCH, Risk Level is a CRITICAL WARNING, and the line
  printed for it shows the value found in upper case, \<open>HIGH\<close>.
\<close>

theorem example_audit:
  "audit (FactCheckAuditor\<lparr>content := Some ''The deadline is March 3rd. The lead engineer is Sarah Chen. The budget is $50,000. Risk Level: High.''\<rparr>) =
     ([\<lparr> category = ''Deadline'', expected = ''January 15th'', actual = Some ''march 3rd'', status = ''MISMATCH'' \<rparr>,
       \<lparr> category = ''Lead'', expected = ''Sarah Chen'', actual = Some ''sarah chen'', status = ''MATCH'' \<rparr>,
       \<lparr> category = ''Budget'', expected = ''$50,000'', actual = Some ''$50,000'', status = ''MATCH'' \<rparr>,
       \<lparr> category = ''Risk Level'', expected = ''Low'', actual = Some ''high'', status = ''CRITICAL WARNING'' \<rparr>],
      [banner, ''AUDIT IN PROGRESS'', banner,
       ''Deadline: MISMATCH (Expected: January 15th, Found: march 3rd)'',
       ''Lead: MATCH (Sarah Chen)'',
       ''Budget: MATCH ($50,000)'',
       ''Risk Level: CRITICAL WARNING (Expected: Low, Found: HIGH)'',
       banner])"
  by code_simp

text \<open>
  C4. The result of \<^verbatim>\<open>audit\<close> for the \<open>i\<close>-th configured category: DATA MISSING when
  the extraction gives no value, MATCH when the extracted value equals the expected one
  up to case.
\<close>

theorem missing_and_match:
  assumes "i < length (expected_values self)"
    and "expected_values self ! i = (cat, exp_v)"
  shows "(extract_value self cat = None \<longrightarrow>
            fst (audit self) ! i =
              \<lparr> category = cat, expected = exp_v, actual = None, status = ''DATA MISSING'' \<rparr>) \<and>
         (\<forall>a. extract_value self cat = Some a \<and> lower a = lower exp_v \<longrightarrow>
            fst (audit self) ! i =
              \<lparr> category = cat, expected = exp_v, actual = Some a, status = ''MATCH'' \<rparr>)"
  using assms by (simp add: audit_results audit_category_result)

theorem missing_and_match_witness:
  "fst (audit (FactCheckAuditor\<lparr>content := Some ''The lead engineer is SARAH chen.''\<rparr>)) ! 0 =
      \<lparr> category = ''Deadline'', expected = ''January 15th'', actual = None, status = ''DATA MISSING'' \<rparr> \<and>
   fst (audit (FactCheckAuditor\<lparr>content := Some ''The lead engineer is SARAH chen.''\<rparr>)) ! 1 =
      \<lparr> category = ''Lead'', expected = ''Sarah Chen'', actual = Some ''sarah chen'', status = ''MATCH'' \<rparr>"
proof -
  let ?self = "FactCheckAuditor\<lparr>content := Some ''The lead engineer is SARAH chen.''\<rparr>"
  have l0: "0 < length (expected_values ?self)" by (simp add: FactCheckAuditor_def)
  have e0: "expected_values ?self ! 0 = (''Deadline'', ''January 15th'')" by (simp add: FactCheckAuditor_def)
  have x0: "extract_value ?self ''Deadline'' = None" by code_simp
  have l1: "1 < length (expected_values ?self)" by (simp add: FactCheckAuditor_def)
  have e1: "expected_values ?self ! 1 = (''Lead'', ''Sarah Chen'')" by (simp add: FactCheckAuditor_def)
  have x1: "extract_value ?self ''Lead'' = Some ''sarah chen'' \<and> lower ''sarah chen'' = lower ''Sarah Chen''"
    by code_simp
  show ?thesis
    using missing_and_match [OF l0 e0] missing_and_match [OF l1 e1] x0 x1 by blast
qed

section \<open>The report\<close>

lemma count_status_length:
  "count_status s results = length (filter (\<lambda>r. status r = s) results)"
  by (simp add: count_status_def sum_list_map_filter' sum_list_triv flip: length_filter_conv_card)

lemma audit_status_cases:
  "r \<in> set (fst (audit self)) \<Longrightarrow>
     status r = ''MATCH'' \<or> status r = ''MISMATCH'' \<or> status r = ''CRITICAL WARNING'' \<or> status r = ''DATA MISSING''"
  by (auto simp: audit_results audit_category_result split: option.splits if_splits)

lemma audit_critical_actual:
  "r \<in> set (fst (audit self)) \<Longrightarrow> status r = ''CRITICAL WARNING'' \<Longrightarrow> actual r \<noteq> None"
  by (auto simp: audit_results audit_category_result split: option.splits if_splits)

lemma four_way_partition:
  assumes "\<forall>r \<in> set rs. status r = ''MATCH'' \<or> status r = ''MISMATCH'' \<or> status r = ''CRITICAL WARNING'' \<or> status r = ''DATA MISSING''"
  shows "length (filter (\<lambda>r. status r = ''MATCH'') rs)
       + length (filter (\<lambda>r. status r = ''MISMATCH'') rs)
       + length (filter (\<lambda>r. status r = ''CRITICAL WARNING'') rs)
       + length (filter (\<lambda>r. status r = ''DATA MISSING'') rs) = length rs"
  using assms by (induction rs) auto

lemma report_warning_lines_ok:
  "\<forall>r \<in> set rs. actual r \<noteq> None \<Longrightarrow> \<exists>ls. report_warning_lines rs = Inr ls"
  by (induction rs) auto

lemma log_warning_lines_ok:
  "\<forall>r \<in> set rs. actual r \<noteq> None \<Longrightarrow> \<exists>ls. log_warning_lines rs = Inr ls"
  by (induction rs) auto

lemma report_lines_summary:
  "report_lines self results = Inr ls \<Longrightarrow> \<exists>pre. ls = pre @ report_summary_lines results"
  by (auto simp: report_lines_def Let_def split: if_splits sum.splits)

lemma report_lines_audit_ok:
  "\<exists>ls. report_lines self (fst (audit self)) = Inr ls"
proof -
  have "\<forall>r \<in> set (filter (\<lambda>r. status r = ''CRITICAL WARNING'') (fst (audit self))). actual r \<noteq> None"
    using audit_critical_actual by auto
  from report_warning_lines_ok [OF this] show ?thesis
    by (auto simp: report_lines_def Let_def split: sum.splits)
qed

text \<open>
  C5. The report built from the results of an audit ends with the summary, whose four
  counts are the numbers of results with status MATCH, MISMATCH, CRITICAL WARNING and
  DATA MISSING; the four counts add up to the number of configured categories.
\<close>

theorem summary_counts:
  "\<exists>pre. report_lines self (fst (audit self)) =
      Inr (pre @
        [[], ''SUMMARY:'',
         ''  MATCH: '' @ str_nat (length (filter (\<lambda>r. status r = ''MATCH'') (fst (audit self)))),
         ''  MISMATCH: '' @ str_nat (length (filter (\<lambda>r. status r = ''MISMATCH'') (fst (audit self)))),
         ''  CRITICAL WARNING: '' @ str_nat (length (filter (\<lambda>r. status r = ''CRITICAL WARNING'') (fst (audit self)))),
         ''  DATA MISSING: '' @ str_nat (length (filter (\<lambda>r. status r = ''DATA MISSING'') (fst (audit self)))),
         [], banner]) \<and>
     length (filter (\<lambda>r. status r = ''MATCH'') (fst (audit self)))
       + length (filter (\<lambda>r. status r = ''MISMATCH'') (fst (audit self)))
       + length (filter (\<lambda>r. status r = ''CRITICAL WARNING'') (fst (audit self)))
       + length (filter (\<lambda>r. status r = ''DATA MISSING'') (fst (audit self)))
       = length (expected_values self)"
proof -
  obtain ls where ls: "report_lines self (fst (audit self)) = Inr ls"
    using report_lines_audit_ok by blast
  then obtain pre where "ls = pre @ report_summary_lines (fst (audit self))"
    using report_lines_summary by blast
  moreover have "length (fst (audit self)) = length (expected_values self)"
    by (simp add: audit_results)
  moreover note four_way_partition [of "fst (audit self)"] audit_status_cases [of _ self]
  ultimately show ?thesis
    using ls by (auto simp: report_summary_lines_def count_status_length)
qed

section \<open>The history log\<close>

lemma digit_char_neq_e: "d < 10 \<Longrightarrow> digit_char d \<noteq> CHR ''e''"
proof
  assume d: "d < 10" and "digit_char d = CHR ''e''"
  then have "(of_char (char_of (48 + d) :: char) :: nat) = of_char CHR ''e''"
    by (simp add: digit_char_def)
  with d show False by (simp add: of_char_of)
qed

lemma str_nat_last: "last (str_nat n) = digit_char (n mod 10)"
  by (subst str_nat.simps) simp

lemma str_nat_neq_None: "str_nat n \<noteq> ''None''"
proof
  assume "str_nat n = ''None''"
  then have "last (str_nat n) = CHR ''e''" by simp
  then show False using digit_char_neq_e [of "n mod 10"] by (simp add: str_nat_last)
qed

lemma log_warning_lines_no_None:
  "log_warning_lines rs = Inr ls \<Longrightarrow> ''Mismatches Found: None'' \<notin> set ls"
  by (induction rs arbitrary: ls) (auto split: option.splits sum.splits)

lemma rule_line_neq: "rule_line \<noteq> ''Mismatches Found: None''"
  by code_simp

lemma warning_sign_neq:
  "warning_sign @ s \<noteq> ''Mismatches Found: None''"
  "''Mismatches Found: None'' \<noteq> warning_sign @ s"
  by (simp_all add: warning_sign_def)

lemma log_mismatch_lines_no_None: "''Mismatches Found: None'' \<notin> set (map log_mismatch_line ms)"
  by (auto simp: log_mismatch_line_def)

lemma log_missing_lines_no_None: "''Mismatches Found: None'' \<notin> set (map log_missing_line ms)"
  by (auto simp: log_missing_line_def)

lemma count_list_0: "x \<notin> set xs \<Longrightarrow> count_list xs x = 0"
  by (simp add: count_list_0_iff)

lemma log_entry_count:
  assumes "log_entry ts results = Inr ls"
  shows "count_list ls ''Mismatches Found: None'' =
           (if filter (\<lambda>r. status r = ''MISMATCH'') results = [] \<and>
               filter (\<lambda>r. status r = ''CRITICAL WARNING'') results = [] then 1 else 0)"
proof -
  let ?crit = "filter (\<lambda>r. status r = ''CRITICAL WARNING'') results"
  let ?mis = "filter (\<lambda>r. status r = ''MISMATCH'') results"
  let ?missing = "filter (\<lambda>r. status r = ''DATA MISSING'') results"
  let ?line = "''Mismatches Found: None''"
  let ?block = "if ?crit \<noteq> [] then
                 (case log_warning_lines ?crit of
                    Inl e \<Rightarrow> Inl e
                  | Inr ls \<Rightarrow>
                      Inr ((warning_sign @ ''  CRITICAL WARNINGS: '' @ str_nat (length ?crit)) # ls))
               else Inr []"
  obtain block where block: "?block = Inr block"
    using assms by (auto simp: log_entry_def Let_def split: sum.splits)
  have b0: "count_list block ?line = 0"
    using block log_warning_lines_no_None
    by (auto simp: warning_sign_neq count_list_0_iff split: if_splits sum.splits)
  define head where
    "head = [rule_line, ''AUDIT RUN: '' @ ts, ''Total Matches: '' @ str_nat (count_status ''MATCH'' results)]"
  define mlines where
    "mlines = (if ?mis \<noteq> [] then
                 (''Mismatches Found: '' @ str_nat (length ?mis)) # map log_mismatch_line ?mis
               else if ?crit = [] then [?line]
               else [])"
  define dlines where
    "dlines = (if ?missing \<noteq> [] then
                 (''Data Missing: '' @ str_nat (length ?missing)) # map log_missing_line ?missing
               else [])"
  have h0: "count_list head ?line = 0"
    by (simp add: head_def rule_line_neq)
  have m0: "count_list mlines ?line = (if ?mis = [] \<and> ?crit = [] then 1 else 0)"
    using log_mismatch_lines_no_None [of ?mis]
    by (simp add: mlines_def str_nat_neq_None count_list_0 del: filter_empty_conv)
  have d0: "count_list dlines ?line = 0"
    using log_missing_lines_no_None [of ?missing]
    by (simp add: dlines_def count_list_0 del: filter_empty_conv)
  have t0: "count_list [rule_line, []] ?line = 0"
    by (simp add: rule_line_neq)
  have "ls = head @ block @ mlines @ dlines @ [rule_line, []]"
    using assms block by (simp add: log_entry_def Let_def head_def mlines_def dlines_def)
  then have "count_list ls ?line =
      count_list head ?line + count_list block ?line + count_list mlines ?line
      + count_list dlines ?line + count_list [rule_line, []] ?line"
    by (simp only: count_list_append add.assoc)
  then show ?thesis
    by (simp only: h0 b0 m0 d0 t0)
qed

text \<open>
  C7. In the entry built for the history log, the line \<open>Mismatches Found: None\<close> is
  present exactly when no result is a MISMATCH and none is a CRITICAL WARNING, and it is
  never present twice.
\<close>

theorem mismatches_none_line:
  assumes "log_entry ts results = Inr ls"
  shows "(''Mismatches Found: None'' \<in> set ls \<longleftrightarrow>
            (\<forall>r \<in> set results. status r \<noteq> ''MISMATCH'' \<and> status r \<noteq> ''CRITICAL WARNING'')) \<and>
         count_list ls ''Mismatches Found: None'' \<le> 1"
proof -
  have "''Mismatches Found: None'' \<in> set ls \<longleftrightarrow> count_list ls ''Mismatches Found: None'' \<noteq> 0"
    by (simp add: count_list_0_iff)
  then show ?thesis
    by (auto simp: log_entry_count [OF assms] filter_empty_conv split: if_splits)
qed

theorem mismatches_none_line_witness:
  "(''Mismatches Found: None'' \<in> set
        [rule_line, ''AUDIT RUN: 2024-05-01 09:30:00'', ''Total Matches: 0'',
         warning_sign @ ''  CRITICAL WARNINGS: 1'',
         ''  - Risk Level: Expected '' @ apostrophe @ ''Low'' @ apostrophe @ '', Found '' @ apostrophe @ ''HIGH'' @ apostrophe,
         rule_line, []] \<longleftrightarrow>
      (\<forall>r \<in> set [\<lparr> category = ''Risk Level'', expected = ''Low'', actual = Some ''high'',
                      status = ''CRITICAL WARNING'' \<rparr>].
          status r \<noteq> ''MISMATCH'' \<and> status r \<noteq> ''CRITICAL WARNING'')) \<and>
   count_list
        [rule_line, ''AUDIT RUN: 2024-05-01 09:30:00'', ''Total Matches: 0'',
         warning_sign @ ''  CRITICAL WARNINGS: 1'',
         ''  - Risk Level: Expected '' @ apostrophe @ ''Low'' @ apostrophe @ '', Found '' @ apostrophe @ ''HIGH'' @ apostrophe,
         rule_line, []] ''Mismatches Found: None'' \<le> 1"
proof -
  have h: "log_entry ''2024-05-01 09:30:00''
             [\<lparr> category = ''Risk Level'', expected = ''Low'', actual = Some ''high'',
                status = ''CRITICAL WARNING'' \<rparr>] =
           Inr [rule_line, ''AUDIT RUN: 2024-05-01 09:30:00'', ''Total Matches: 0'',
                warning_sign @ ''  CRITICAL WARNINGS: 1'',
                ''  - Risk Level: Expected '' @ apostrophe @ ''Low'' @ apostrophe @ '', Found '' @ apostrophe @ ''HIGH'' @ apostrophe,
                rule_line, []]"
    by code_simp
  show ?thesis by (rule mismatches_none_line [OF h])
qed

section \<open>The run\<close>

lemma log_entry_audit_ok:
  "\<exists>ls. log_entry ts (fst (audit self)) = Inr ls"
proof -
  have "\<forall>r \<in> set (filter (\<lambda>r. status r = ''CRITICAL WARNING'') (fst (audit self))). actual r \<noteq> None"
    using audit_critical_actual by auto
  from log_warning_lines_ok [OF this] show ?thesis
    by (auto simp: log_entry_def Let_def split: sum.splits)
qed

lemma load_file_fails:
  "files w (source_file self) = None \<or> read_failure w (source_file self) \<noteq> None \<Longrightarrow>
     \<exists>w'. load_file self w = (False, self, w') \<and> files w' = files w"
  by (auto simp: load_file_def print_def split: option.splits)

lemma load_file_ok:
  "files w (source_file self) = Some text \<Longrightarrow> read_failure w (source_file self) = None \<Longrightarrow>
     load_file self w =
       (True, self\<lparr>content := Some text\<rparr>,
        print (print w (check_mark @ '' Loaded: '' @ source_file self)) (''Content: '' @ text @ newline))"
  by (simp add: load_file_def)

text \<open>The world in which \<^verbatim>\<open>run\<close> starts the audit, after a successful load.\<close>

lemma run_loaded:
  assumes "files w (source_file self) = Some text" and "read_failure w (source_file self) = None"
    and "w3 = (print (print (print (print (print w (newline @ banner)) ''FACT-CHECK AUDITOR'') (banner @ newline))
                 (check_mark @ '' Loaded: '' @ source_file self)) (''Content: '' @ text @ newline))
               \<lparr>console := console (print (print (print (print (print w (newline @ banner)) ''FACT-CHECK AUDITOR'') (banner @ newline))
                 (check_mark @ '' Loaded: '' @ source_file self)) (''Content: '' @ text @ newline)) @ snd (audit self1)\<rparr>"
    and "self1 = self\<lparr>content := Some text\<rparr>"
  shows "run self w =
     (case generate_report self1 (fst (audit self1)) w3 of
        Inl ew \<Rightarrow> Inl ew
      | Inr (reported, w4) \<Rightarrow>
          (case log_to_history self1 (fst (audit self1)) w4 of
             Inl ew \<Rightarrow> Inl ew
           | Inr (logged, w5) \<Rightarrow> Inr (True, self1, print w5 (newline @ ''Audit complete!''))))"
  using assms
  by (simp add: run_def Let_def load_file_def print_def case_prod_beta split: sum.splits)

lemma generate_report_audit:
  "\<exists>rl. report_lines self (fst (audit self)) = Inr rl \<and>
     generate_report self (fst (audit self)) w =
       Inr (case write_failure w (report_file self) of
              None \<Rightarrow>
                (True,
                 print (w\<lparr>files := (files w)(report_file self \<mapsto> join newline rl)\<rparr>)
                   (newline @ check_mark @ '' Report generated: '' @ report_file self))
            | Some e \<Rightarrow> (False, print w (newline @ ''Error generating report: '' @ e)))"
proof -
  obtain rl where "report_lines self (fst (audit self)) = Inr rl"
    using report_lines_audit_ok by blast
  then show ?thesis
    by (simp add: generate_report_def Let_def split: option.splits)
qed

lemma log_to_history_audit:
  "\<exists>ll. log_entry (now w) (fst (audit self)) = Inr ll \<and>
     log_to_history self (fst (audit self)) w =
       Inr (case write_failure w (history_log self) of
              Some e \<Rightarrow> (False, print w (''Error logging to history: '' @ e))
            | None \<Rightarrow>
                (True,
                 print (w\<lparr>files := (files w)(history_log self \<mapsto>
                          (case files w (history_log self) of Some old \<Rightarrow> old | None \<Rightarrow> history_header)
                          @ join newline ll)\<rparr>)
                   (check_mark @ '' History logged: '' @ history_log self)))"
proof -
  obtain ll where "log_entry (now w) (fst (audit self)) = Inr ll"
    using log_entry_audit_ok by blast
  then show ?thesis
    by (simp add: log_to_history_def Let_def split: option.splits)
qed

text \<open>What a run that loads its source does to the files.\<close>

lemma run_effect:
  assumes "files w (source_file self) = Some text" and "read_failure w (source_file self) = None"
  shows "\<exists>w' rl ll.
      run self w = Inr (True, self\<lparr>content := Some text\<rparr>, w') \<and>
      report_lines (self\<lparr>content := Some text\<rparr>) (fst (audit (self\<lparr>content := Some text\<rparr>))) = Inr rl \<and>
      log_entry (now w) (fst (audit (self\<lparr>content := Some text\<rparr>))) = Inr ll \<and>
      (\<exists>f. f = (case write_failure w (report_file self) of
           None \<Rightarrow> (files w)(report_file self \<mapsto> join newline rl)
         | Some e \<Rightarrow> files w) \<and>
         files w' = (case write_failure w (history_log self) of
           None \<Rightarrow> (f)(history_log self \<mapsto>
                     (case (f) (history_log self) of Some old \<Rightarrow> old | None \<Rightarrow> history_header)
                     @ join newline ll)
         | Some e \<Rightarrow> f)) \<and>
      read_failure w' = read_failure w \<and> write_failure w' = write_failure w \<and>
      last (console w') = newline @ ''Audit complete!'' \<and>
      (\<forall>e. write_failure w (report_file self) = Some e \<longrightarrow>
           newline @ ''Error generating report: '' @ e \<in> set (console w'))"
proof -
  define self1 where "self1 = self\<lparr>content := Some text\<rparr>"
  define w2 where "w2 = print (print (print (print (print w (newline @ banner)) ''FACT-CHECK AUDITOR'') (banner @ newline))
                 (check_mark @ '' Loaded: '' @ source_file self)) (''Content: '' @ text @ newline)"
  define w3 where "w3 = w2\<lparr>console := console w2 @ snd (audit self1)\<rparr>"
  have w3: "files w3 = files w" "write_failure w3 = write_failure w" "read_failure w3 = read_failure w"
    "now w3 = now w"
    by (simp_all add: w3_def w2_def print_def)
  have paths: "report_file self1 = report_file self" "history_log self1 = history_log self"
    by (simp_all add: self1_def)
  obtain rl where rl: "report_lines self1 (fst (audit self1)) = Inr rl"
    and gen: "generate_report self1 (fst (audit self1)) w3 =
       Inr (case write_failure w3 (report_file self1) of
              None \<Rightarrow>
                (True,
                 print (w3\<lparr>files := (files w3)(report_file self1 \<mapsto> join newline rl)\<rparr>)
                   (newline @ check_mark @ '' Report generated: '' @ report_file self1))
            | Some e \<Rightarrow> (False, print w3 (newline @ ''Error generating report: '' @ e)))"
    using generate_report_audit [of self1 w3] by blast
  define w4 where "w4 = (case write_failure w (report_file self) of
              None \<Rightarrow>
                 print (w3\<lparr>files := (files w)(report_file self \<mapsto> join newline rl)\<rparr>)
                   (newline @ check_mark @ '' Report generated: '' @ report_file self)
            | Some e \<Rightarrow> print w3 (newline @ ''Error generating report: '' @ e))"
  have gen': "\<exists>ok. generate_report self1 (fst (audit self1)) w3 = Inr (ok, w4)"
    using gen by (auto simp: w4_def w3 paths split: option.splits)
  define f where "f = (case write_failure w (report_file self) of
           None \<Rightarrow> (files w)(report_file self \<mapsto> join newline rl)
         | Some e \<Rightarrow> files w)"
  have w4: "files w4 = f" "write_failure w4 = write_failure w"
    "read_failure w4 = read_failure w" "now w4 = now w"
    by (simp_all add: w4_def w3 print_def f_def split: option.splits)
  have w4c: "\<forall>e. write_failure w (report_file self) = Some e \<longrightarrow>
           newline @ ''Error generating report: '' @ e \<in> set (console w4)"
    by (simp add: w4_def print_def)
  obtain ll where ll: "log_entry (now w4) (fst (audit self1)) = Inr ll"
    and log: "log_to_history self1 (fst (audit self1)) w4 =
       Inr (case write_failure w4 (history_log self1) of
              Some e \<Rightarrow> (False, print w4 (''Error logging to history: '' @ e))
            | None \<Rightarrow>
                (True,
                 print (w4\<lparr>files := (files w4)(history_log self1 \<mapsto>
                          (case files w4 (history_log self1) of Some old \<Rightarrow> old | None \<Rightarrow> history_header)
                          @ join newline ll)\<rparr>)
                   (check_mark @ '' History logged: '' @ history_log self1)))"
    using log_to_history_audit [of w4 self1] by blast
  define w5 where "w5 = (case write_failure w (history_log self) of
              Some e \<Rightarrow> print w4 (''Error logging to history: '' @ e)
            | None \<Rightarrow>
                 print (w4\<lparr>files := (files w4)(history_log self \<mapsto>
                          (case files w4 (history_log self) of Some old \<Rightarrow> old | None \<Rightarrow> history_header)
                          @ join newline ll)\<rparr>)
                   (check_mark @ '' History logged: '' @ history_log self))"
  have log': "\<exists>ok. log_to_history self1 (fst (audit self1)) w4 = Inr (ok, w5)"
    using log by (auto simp: w5_def w4 paths split: option.splits)
  have w5: "files w5 = (case write_failure w (history_log self) of
           None \<Rightarrow> (f)(history_log self \<mapsto>
                     (case (f) (history_log self) of Some old \<Rightarrow> old | None \<Rightarrow> history_header)
                     @ join newline ll)
         | Some e \<Rightarrow> f)"
    "write_failure w5 = write_failure w" "read_failure w5 = read_failure w"
    by (simp_all add: w5_def w4 print_def split: option.splits)
  have w5c: "set (console w4) \<subseteq> set (console w5)"
    by (auto simp: w5_def print_def split: option.splits)
  have "run self w = Inr (True, self1, print w5 (newline @ ''Audit complete!''))"
  proof -
    have "w3 = w2\<lparr>console := console w2 @ snd (audit self1)\<rparr>"
      by (simp add: w3_def)
    from run_loaded [OF assms this [unfolded w2_def] self1_def] gen' log'
    show ?thesis by auto
  qed
  moreover have "set (console w5) \<subseteq> set (console (print w5 (newline @ ''Audit complete!'')))"
    by (auto simp: print_def)
  ultimately show ?thesis
    using rl ll w5 w4c w5c f_def unfolding self1_def w4(4)
    by (intro exI [of _ "print w5 (newline @ ''Audit complete!'')"] exI [of _ rl] exI [of _ ll])
       (auto simp: print_def)
qed

text \<open>
  C8. When the source file does not exist, or reading it raises, \<^verbatim>\<open>run\<close> returns
  \<open>False\<close> after printing the matching error message; the auditor and the files are
  as before (no content loaded, no report written, nothing logged) and nothing of an
  audit is printed.
\<close>

theorem load_failure_short_circuits:
  "(files w (source_file self) = None \<longrightarrow>
      run self w =
        Inr (False, self,
             w\<lparr>console := console w @
                [newline @ banner, ''FACT-CHECK AUDITOR'', banner @ newline,
                 ''Error: File '' @ apostrophe @ source_file self @ apostrophe @ '' does not exist.'']\<rparr>)) \<and>
   (\<forall>text e. files w (source_file self) = Some text \<and> read_failure w (source_file self) = Some e \<longrightarrow>
      run self w =
        Inr (False, self,
             w\<lparr>console := console w @
                [newline @ banner, ''FACT-CHECK AUDITOR'', banner @ newline,
                 ''Error reading file: '' @ e]\<rparr>))"
  by (simp add: run_def load_file_def print_def Let_def)

theorem load_failure_short_circuits_witness:
  "run FactCheckAuditor
     \<lparr> files = Map.empty, read_failure = Map.empty, write_failure = Map.empty,
       now = ''2024-05-01 09:30:00'', console = [] \<rparr> =
   Inr (False, FactCheckAuditor,
        \<lparr> files = Map.empty, read_failure = Map.empty, write_failure = Map.empty,
          now = ''2024-05-01 09:30:00'',
          console = [newline @ banner, ''FACT-CHECK AUDITOR'', banner @ newline,
                     ''Error: File '' @ apostrophe @ ''project_specs.txt'' @ apostrophe @ '' does not exist.''] \<rparr>) \<and>
   run FactCheckAuditor
     \<lparr> files = [''project_specs.txt'' \<mapsto> ''Risk Level: High.''],
       read_failure = [''project_specs.txt'' \<mapsto> ''Permission denied''], write_failure = Map.empty,
       now = ''2024-05-01 09:30:00'', console = [] \<rparr> =
   Inr (False, FactCheckAuditor,
        \<lparr> files = [''project_specs.txt'' \<mapsto> ''Risk Level: High.''],
          read_failure = [''project_specs.txt'' \<mapsto> ''Permission denied''], write_failure = Map.empty,
          now = ''2024-05-01 09:30:00'',
          console = [newline @ banner, ''FACT-CHECK AUDITOR'', banner @ newline,
                     ''Error reading file: Permission denied''] \<rparr>)"
  using load_failure_short_circuits
          [of "\<lparr> files = Map.empty, read_failure = Map.empty, write_failure = Map.empty,
                 now = ''2024-05-01 09:30:00'', console = [] \<rparr>" FactCheckAuditor]
        load_failure_short_circuits
          [of "\<lparr> files = [''project_specs.txt'' \<mapsto> ''Risk Level: High.''],
                 read_failure = [''project_specs.txt'' \<mapsto> ''Permission denied''], write_failure = Map.empty,
                 now = ''2024-05-01 09:30:00'', console = [] \<rparr>" FactCheckAuditor]
  by (simp add: FactCheckAuditor_def)

text \<open>
  C9. When the source file loads, \<^verbatim>\<open>run\<close> returns \<open>True\<close> and ends with the line
  \<open>Audit complete!\<close>, whether or not the report could be written. When writing the
  report fails, the error is printed, and the history log still receives the entry of
  the run (unless opening the log fails as well, which leaves the files as they were).
\<close>

theorem report_failure_not_fatal:
  assumes "files w (source_file self) = Some text" and "read_failure w (source_file self) = None"
  shows "\<exists>w'. run self w = Inr (True, self\<lparr>content := Some text\<rparr>, w') \<and>
      last (console w') = newline @ ''Audit complete!'' \<and>
      (\<forall>e. write_failure w (report_file self) = Some e \<longrightarrow>
         newline @ ''Error generating report: '' @ e \<in> set (console w') \<and>
         (\<exists>ll. log_entry (now w) (fst (audit (self\<lparr>content := Some text\<rparr>))) = Inr ll \<and>
            files w' =
              (case write_failure w (history_log self) of
                 None \<Rightarrow> (files w)(history_log self \<mapsto>
                    (case files w (history_log self) of Some old \<Rightarrow> old | None \<Rightarrow> history_header)
                    @ join newline ll)
               | Some e' \<Rightarrow> files w)))"
proof -
  from run_effect [OF assms] obtain w' rl ll where
    r: "run self w = Inr (True, self\<lparr>content := Some text\<rparr>, w')"
    and ll: "log_entry (now w) (fst (audit (self\<lparr>content := Some text\<rparr>))) = Inr ll"
    and f: "\<exists>f. f = (case write_failure w (report_file self) of
           None \<Rightarrow> (files w)(report_file self \<mapsto> join newline rl)
         | Some e \<Rightarrow> files w) \<and>
         files w' = (case write_failure w (history_log self) of
           None \<Rightarrow> f(history_log self \<mapsto>
                     (case f (history_log self) of Some old \<Rightarrow> old | None \<Rightarrow> history_header)
                     @ join newline ll)
         | Some e \<Rightarrow> f)"
    and c: "last (console w') = newline @ ''Audit complete!''"
      "\<forall>e. write_failure w (report_file self) = Some e \<longrightarrow>
           newline @ ''Error generating report: '' @ e \<in> set (console w')"
    by blast
  have "\<forall>e. write_failure w (report_file self) = Some e \<longrightarrow>
            files w' =
              (case write_failure w (history_log self) of
                 None \<Rightarrow> (files w)(history_log self \<mapsto>
                    (case files w (history_log self) of Some old \<Rightarrow> old | None \<Rightarrow> history_header)
                    @ join newline ll)
               | Some e' \<Rightarrow> files w)"
  proof (intro allI impI)
    fix e assume e: "write_failure w (report_file self) = Some e"
    from f have "files w' = (case write_failure w (history_log self) of
           None \<Rightarrow> (files w)(history_log self \<mapsto>
                     (case files w (history_log self) of Some old \<Rightarrow> old | None \<Rightarrow> history_header)
                     @ join newline ll)
         | Some e \<Rightarrow> files w)"
      unfolding e by simp
    then show "files w' =
              (case write_failure w (history_log self) of
                 None \<Rightarrow> (files w)(history_log self \<mapsto>
                    (case files w (history_log self) of Some old \<Rightarrow> old | None \<Rightarrow> history_header)
                    @ join newline ll)
               | Some e' \<Rightarrow> files w)" .
  qed
  with r ll c show ?thesis by blast
qed

theorem report_failure_not_fatal_witness:
  "\<exists>w'. run FactCheckAuditor
            \<lparr> files = [''project_specs.txt'' \<mapsto> ''Risk Level: High.''],
              read_failure = Map.empty,
              write_failure = [''audit_report.txt'' \<mapsto> ''Permission denied''],
              now = ''2024-05-01 09:30:00'', console = [] \<rparr> =
          Inr (True, FactCheckAuditor\<lparr>content := Some ''Risk Level: High.''\<rparr>, w') \<and>
      last (console w') = newline @ ''Audit complete!'' \<and>
      newline @ ''Error generating report: Permission denied'' \<in> set (console w') \<and>
      (\<exists>ll. log_entry ''2024-05-01 09:30:00''
               (fst (audit (FactCheckAuditor\<lparr>content := Some ''Risk Level: High.''\<rparr>))) = Inr ll \<and>
            files w' = [''project_specs.txt'' \<mapsto> ''Risk Level: High.'',
                        ''audit_history.log'' \<mapsto> history_header @ join newline ll])"
  using report_failure_not_fatal
          [of "\<lparr> files = [''project_specs.txt'' \<mapsto> ''Risk Level: High.''],
                 read_failure = Map.empty,
                 write_failure = [''audit_report.txt'' \<mapsto> ''Permission denied''],
                 now = ''2024-05-01 09:30:00'', console = [] \<rparr>" FactCheckAuditor "''Risk Level: High.''"]
  by (simp add: FactCheckAuditor_def)

text \<open>
  C6. Two consecutive runs whose source file loads and whose history log can be opened
  for writing. After the first run the log is its prior text, or the header when there
  was no log, followed by the entry of the first run; after the second run it is that
  same text followed by the entry of the second run. The report file is a path other
  than the log.
\<close>

theorem history_append_only:
  assumes "files w (source_file self) = Some text" and "read_failure w (source_file self) = None"
    and "write_failure w (history_log self) = None" and "report_file self \<noteq> history_log self"
  shows "\<exists>self1 w1 self2 w2 e1 e2.
      run self w = Inr (True, self1, w1) \<and>
      run self (w1\<lparr>now := t2\<rparr>) = Inr (True, self2, w2) \<and>
      log_entry (now w) (fst (audit self1)) = Inr e1 \<and>
      log_entry t2 (fst (audit self2)) = Inr e2 \<and>
      files w1 (history_log self) =
        Some ((case files w (history_log self) of Some old \<Rightarrow> old | None \<Rightarrow> history_header)
              @ join newline e1) \<and>
      files w2 (history_log self) =
        Some ((case files w (history_log self) of Some old \<Rightarrow> old | None \<Rightarrow> history_header)
              @ join newline e1 @ join newline e2)"
proof -
  let ?log = "history_log self"
  let ?start = "case files w ?log of Some old \<Rightarrow> old | None \<Rightarrow> history_header"
  from run_effect [OF assms(1,2)] obtain w1 rl1 e1 f1 where
    r1: "run self w = Inr (True, self\<lparr>content := Some text\<rparr>, w1)"
    and e1: "log_entry (now w) (fst (audit (self\<lparr>content := Some text\<rparr>))) = Inr e1"
    and f1: "f1 = (case write_failure w (report_file self) of
           None \<Rightarrow> (files w)(report_file self \<mapsto> join newline rl1)
         | Some e \<Rightarrow> files w)"
    and fw1: "files w1 = (case write_failure w ?log of
           None \<Rightarrow> f1(?log \<mapsto>
                     (case f1 ?log of Some old \<Rightarrow> old | None \<Rightarrow> history_header)
                     @ join newline e1)
         | Some e \<Rightarrow> f1)"
    and rw1: "read_failure w1 = read_failure w" "write_failure w1 = write_failure w"
    by blast
  have f1log: "f1 ?log = files w ?log"
    using assms(4) by (simp add: f1 split: option.splits)
  have log1: "files w1 ?log = Some (?start @ join newline e1)"
    by (simp add: fw1 assms(3) f1log)
  have "f1 (source_file self) \<noteq> None"
    using assms(1) by (simp add: f1 split: option.splits)
  then have "files (w1\<lparr>now := t2\<rparr>) (source_file self) \<noteq> None"
    by (simp add: fw1 assms(3))
  then obtain text2 where src2: "files (w1\<lparr>now := t2\<rparr>) (source_file self) = Some text2"
    by blast
  have rd2: "read_failure (w1\<lparr>now := t2\<rparr>) (source_file self) = None"
    by (simp add: rw1 assms(2))
  from run_effect [OF src2 rd2] obtain w2 rl2 e2 f2 where
    r2: "run self (w1\<lparr>now := t2\<rparr>) = Inr (True, self\<lparr>content := Some text2\<rparr>, w2)"
    and e2: "log_entry (now (w1\<lparr>now := t2\<rparr>)) (fst (audit (self\<lparr>content := Some text2\<rparr>))) = Inr e2"
    and f2: "f2 = (case write_failure (w1\<lparr>now := t2\<rparr>) (report_file self) of
           None \<Rightarrow> (files (w1\<lparr>now := t2\<rparr>))(report_file self \<mapsto> join newline rl2)
         | Some e \<Rightarrow> files (w1\<lparr>now := t2\<rparr>))"
    and fw2: "files w2 = (case write_failure (w1\<lparr>now := t2\<rparr>) ?log of
           None \<Rightarrow> f2(?log \<mapsto>
                     (case f2 ?log of Some old \<Rightarrow> old | None \<Rightarrow> history_header)
                     @ join newline e2)
         | Some e \<Rightarrow> f2)"
    by blast
  have f2log: "f2 ?log = Some (?start @ join newline e1)"
    using assms(4) log1 by (simp add: f2 split: option.splits)
  have log2: "files w2 ?log = Some (?start @ join newline e1 @ join newline e2)"
    by (simp add: fw2 rw1 assms(3) f2log)
  from r1 r2 e1 e2 log1 log2 show ?thesis
    by (intro exI [of _ "self\<lparr>content := Some text\<rparr>"] exI [of _ w1]
              exI [of _ "self\<lparr>content := Some text2\<rparr>"] exI [of _ w2]
              exI [of _ e1] exI [of _ e2]) simp
qed

theorem history_append_only_witness:
  "\<exists>self1 w1 self2 w2 e1 e2.
      run FactCheckAuditor
        \<lparr> files = [''project_specs.txt'' \<mapsto> ''Risk Level: High.''],
          read_failure = Map.empty, write_failure = Map.empty,
          now = ''2024-05-01 09:30:00'', console = [] \<rparr> = Inr (True, self1, w1) \<and>
      run FactCheckAuditor (w1\<lparr>now := ''2024-05-01 09:31:00''\<rparr>) = Inr (True, self2, w2) \<and>
      log_entry ''2024-05-01 09:30:00'' (fst (audit self1)) = Inr e1 \<and>
      log_entry ''2024-05-01 09:31:00'' (fst (audit self2)) = Inr e2 \<and>
      files w1 ''audit_history.log'' = Some (history_header @ join newline e1) \<and>
      files w2 ''audit_history.log'' = Some (history_header @ join newline e1 @ join newline e2)"
  using history_append_only
          [of "\<lparr> files = [''project_specs.txt'' \<mapsto> ''Risk Level: High.''],
                 read_failure = Map.empty, write_failure = Map.empty,
                 now = ''2024-05-01 09:30:00'', console = [] \<rparr>" FactCheckAuditor
              "''Risk Level: High.''" "''2024-05-01 09:31:00''"]
  by (simp add: FactCheckAuditor_def)

section \<open>The directory scan\<close>

lemma scan_loop_eq:
  "scan_loop fs total_size out =
     (total_size + sum_list (map (\<lambda>f. case st_size f of Some n \<Rightarrow> n | None \<Rightarrow> 0) fs),
      out @ map (\<lambda>f. ljust 40 (name f) @ '' '' @
                   rjust 15 (case st_size f of Some n \<Rightarrow> format_size n | None \<Rightarrow> ''Error'')) fs)"
  by (induction fs arbitrary: total_size out) (simp_all split: option.split)

lemma sum_list_insort_key:
  "sum_list (map g (insort_key k x xs)) = g x + sum_list (map g xs)"
  for g :: "'a \<Rightarrow> nat" and k :: "'a \<Rightarrow> 'b::linorder"
  by (induction xs) simp_all

lemma sum_list_sort_key:
  "sum_list (map g (sort_key k xs)) = sum_list (map g xs)"
  for g :: "'a \<Rightarrow> nat" and k :: "'a \<Rightarrow> 'b::linorder"
  by (induction xs) (simp_all add: sum_list_insort_key)

lemma str_nat_small: "str_nat 2 = ''2''" "str_nat 500 = ''500''"
  by code_simp+

lemma digit_chars: "digit_char 0 = CHR ''0''" "digit_char 4 = CHR ''4''" "digit_char 9 = CHR ''9''"
  by code_simp+

lemma round_half_even_values:
  "round_half_even (500 * 100) = 50000"
  "round_half_even (2 * 100) = 200"
  "round_half_even (637 / 256 * 100) = 249"
proof -
  have fl: "\<lfloor>500 * 100 :: rat\<rfloor> = 50000" "\<lfloor>2 * 100 :: rat\<rfloor> = 200"
    "\<lfloor>637 / 256 * 100 :: rat\<rfloor> = 248"
    by (rule floor_unique; simp)+
  show "round_half_even (500 * 100) = 50000"
    unfolding round_half_even_def Let_def fl by simp
  show "round_half_even (2 * 100) = 200"
    unfolding round_half_even_def Let_def fl by simp
  show "round_half_even (637 / 256 * 100) = 249"
    unfolding round_half_even_def Let_def fl by simp
qed

lemma format_2f_values:
  "format_2f 500 = ''500.00''" "format_2f 2 = ''2.00''" "format_2f (637 / 256) = ''2.49''"
  unfolding format_2f_def Let_def round_half_even_values
  by (simp_all add: str_nat_small digit_chars)

lemma format_size_values:
  "format_size 500 = ''500.00 B''" "format_size 2048 = ''2.00 KB''" "format_size 2548 = ''2.49 KB''"
  unfolding format_size_def
  by (simp_all add: format_2f_values)

lemma str_nat_two: "str_nat (Suc (Suc 0)) = ''2''"
  by code_simp

lemma scan_directory_lines:
  assumes "path_exists d" and "is_dir d" and "filter is_file (iterdir d) \<noteq> []"
  shows "scan_directory p d =
     [newline @ banner, ''Scanning: '' @ absolute d, banner @ newline,
      ljust 40 ''File Name'' @ '' '' @ rjust 15 ''Size'',
      replicate 40 CHR ''-'' @ '' '' @ replicate 15 CHR ''-'']
     @ map (\<lambda>f. ljust 40 (name f) @ '' '' @
                rjust 15 (case st_size f of Some n \<Rightarrow> format_size n | None \<Rightarrow> ''Error''))
         (sort_key (\<lambda>x. lower (name x)) (filter is_file (iterdir d)))
     @ [replicate 40 CHR ''-'' @ '' '' @ replicate 15 CHR ''-'',
        ljust 40 ''Total:'' @ '' '' @
          rjust 15 (format_size (sum_list (map (\<lambda>f. case st_size f of Some n \<Rightarrow> n | None \<Rightarrow> 0)
                                            (filter is_file (iterdir d))))),
        newline @ ''Total files: '' @ str_nat (length (filter is_file (iterdir d))),
        banner @ newline]"
  using assms unfolding scan_directory_def Let_def scan_loop_eq sum_list_sort_key
  by (simp only: if_True if_False not_True_eq_False simp_thms split_conv append.simps append_assoc length_sort add_0)



text \<open>
  C2, as stated: the total of a 500-byte and a 2048-byte file is not printed as
  \<open>2.44 KB\<close>.
\<close>

theorem scan_total_counterexample:
  "format_size (500 + 2048) \<noteq> ''2.44 KB'' \<and>
   ljust 40 ''Total:'' @ '' '' @ rjust 15 ''2.44 KB'' \<notin> set (scan_directory ''.''
     \<lparr> path_exists = True, is_dir = True, absolute = ''/srv/data'',
       iterdir = [\<lparr> name = ''a.bin'', is_file = True, st_size = Some 500 \<rparr>,
                  \<lparr> name = ''b.bin'', is_file = True, st_size = Some 2048 \<rparr>] \<rparr>)"
proof -
  let ?d = "\<lparr> path_exists = True, is_dir = True, absolute = ''/srv/data'',
       iterdir = [\<lparr> name = ''a.bin'', is_file = True, st_size = Some 500 \<rparr>,
                  \<lparr> name = ''b.bin'', is_file = True, st_size = Some 2048 \<rparr>] \<rparr>"
  have h1: "path_exists ?d" and h2: "is_dir ?d" and h3: "filter is_file (iterdir ?d) \<noteq> []"
    by simp_all
  have ord: "lower ''a.bin'' \<le> lower ''b.bin''" by code_simp
  have eq: "scan_directory ''.'' ?d =
     [newline @ banner, ''Scanning: /srv/data'', banner @ newline,
      ljust 40 ''File Name'' @ '' '' @ rjust 15 ''Size'',
      replicate 40 CHR ''-'' @ '' '' @ replicate 15 CHR ''-'',
      ljust 40 ''a.bin'' @ '' '' @ rjust 15 ''500.00 B'',
      ljust 40 ''b.bin'' @ '' '' @ rjust 15 ''2.00 KB'',
      replicate 40 CHR ''-'' @ '' '' @ replicate 15 CHR ''-'',
      ljust 40 ''Total:'' @ '' '' @ rjust 15 ''2.49 KB'',
      newline @ ''Total files: 2'',
      banner @ newline]"
    using scan_directory_lines [OF h1 h2 h3, of "''.''"] ord
    by (simp add: format_size_values str_nat_two)
  have "ljust 40 ''Total:'' @ '' '' @ rjust 15 ''2.44 KB'' \<notin> set
     [newline @ banner, ''Scanning: /srv/data'', banner @ newline,
      ljust 40 ''File Name'' @ '' '' @ rjust 15 ''Size'',
      replicate 40 CHR ''-'' @ '' '' @ replicate 15 CHR ''-'',
      ljust 40 ''a.bin'' @ '' '' @ rjust 15 ''500.00 B'',
      ljust 40 ''b.bin'' @ '' '' @ rjust 15 ''2.00 KB'',
      replicate 40 CHR ''-'' @ '' '' @ replicate 15 CHR ''-'',
      ljust 40 ''Total:'' @ '' '' @ rjust 15 ''2.49 KB'',
      newline @ ''Total files: 2'',
      banner @ newline]"
    by code_simp
  then show ?thesis
    unfolding eq by (simp add: format_size_values)
qed

text \<open>
  C2, amended. A scan of a directory whose files are a 500-byte file and a 2048-byte
  file, in either order, prints them in the order of their names in lower case with the
  sizes \<open>500.00 B\<close> and \<open>2.00 KB\<close>, the total \<open>2.49 KB\<close> and the count 2.
\<close>

theorem two_file_scan:
  assumes "path_exists d" and "is_dir d"
    and "filter is_file (iterdir d) = [f1, f2]"
    and "st_size f1 = Some 500 \<and> st_size f2 = Some 2048 \<or>
         st_size f1 = Some 2048 \<and> st_size f2 = Some 500"
  shows "scan_directory p d =
     [newline @ banner, ''Scanning: '' @ absolute d, banner @ newline,
      ljust 40 ''File Name'' @ '' '' @ rjust 15 ''Size'',
      replicate 40 CHR ''-'' @ '' '' @ replicate 15 CHR ''-'']
     @ map (\<lambda>f. ljust 40 (name f) @ '' '' @
                rjust 15 (if st_size f = Some 500 then ''500.00 B'' else ''2.00 KB''))
         (if lower (name f1) \<le> lower (name f2) then [f1, f2] else [f2, f1])
     @ [replicate 40 CHR ''-'' @ '' '' @ replicate 15 CHR ''-'',
        ljust 40 ''Total:'' @ '' '' @ rjust 15 ''2.49 KB'',
        newline @ ''Total files: 2'',
        banner @ newline]"
proof -
  let ?L1 = "\<lambda>f. ljust 40 (name f) @ '' '' @
                rjust 15 (case st_size f of Some n \<Rightarrow> format_size n | None \<Rightarrow> ''Error'')"
  let ?L2 = "\<lambda>f. ljust 40 (name f) @ '' '' @
                rjust 15 (if st_size f = Some 500 then ''500.00 B'' else ''2.00 KB'')"
  let ?xs = "if lower (name f1) \<le> lower (name f2) then [f1, f2] else [f2, f1]"
  have ne: "filter is_file (iterdir d) \<noteq> []" using assms(3) by simp
  have sz: "st_size f = Some 500 \<or> st_size f = Some 2048" if "f \<in> set ?xs" for f
    using that assms(4) by (auto split: if_splits)
  have L: "?L1 f = ?L2 f" if "f \<in> set ?xs" for f
    using sz [OF that] by (auto simp: format_size_values)
  have m: "map ?L1 ?xs = map ?L2 ?xs"
    by (rule map_cong [OF refl]) (rule L)
  have srt: "sort_key (\<lambda>x. lower (name x)) [f1, f2] = ?xs"
    by simp
  have "sum_list (map (\<lambda>f. case st_size f of Some n \<Rightarrow> n | None \<Rightarrow> 0) [f1, f2]) = 2548"
    using assms(4) by auto
  then have total: "format_size (sum_list (map (\<lambda>f. case st_size f of Some n \<Rightarrow> n | None \<Rightarrow> 0) [f1, f2]))
      = ''2.49 KB''"
    by (simp only: format_size_values)
  have "length [f1, f2] = 2" by simp
  moreover have "str_nat 2 = ''2''" by code_simp
  ultimately have len: "newline @ ''Total files: '' @ str_nat (length [f1, f2]) = newline @ ''Total files: 2''"
    by (simp only: append.simps)
  show ?thesis
    by (simp only: scan_directory_lines [OF assms(1,2) ne] assms(3) srt m total len)
qed

theorem two_file_scan_witness:
  "scan_directory ''.''
     \<lparr> path_exists = True, is_dir = True, absolute = ''/srv/data'',
       iterdir = [\<lparr> name = ''notes.txt'', is_file = True, st_size = Some 2048 \<rparr>,
                  \<lparr> name = ''Data.bin'', is_file = True, st_size = Some 500 \<rparr>] \<rparr> =
     [newline @ banner, ''Scanning: /srv/data'', banner @ newline,
      ljust 40 ''File Name'' @ '' '' @ rjust 15 ''Size'',
      replicate 40 CHR ''-'' @ '' '' @ replicate 15 CHR ''-'',
      ljust 40 ''Data.bin'' @ '' '' @ rjust 15 ''500.00 B'',
      ljust 40 ''notes.txt'' @ '' '' @ rjust 15 ''2.00 KB'',
      replicate 40 CHR ''-'' @ '' '' @ replicate 15 CHR ''-'',
      ljust 40 ''Total:'' @ '' '' @ rjust 15 ''2.49 KB'',
      newline @ ''Total files: 2'',
      banner @ newline]"
proof -
  let ?f1 = "\<lparr> name = ''notes.txt'', is_file = True, st_size = Some 2048 \<rparr>"
  let ?f2 = "\<lparr> name = ''Data.bin'', is_file = True, st_size = Some 500 \<rparr>"
  let ?d = "\<lparr> path_exists = True, is_dir = True, absolute = ''/srv/data'', iterdir = [?f1, ?f2] \<rparr>"
  have h1: "path_exists ?d" and h2: "is_dir ?d" by simp_all
  have h3: "filter is_file (iterdir ?d) = [?f1, ?f2]" by simp
  have h4: "st_size ?f1 = Some 500 \<and> st_size ?f2 = Some 2048 \<or>
            st_size ?f1 = Some 2048 \<and> st_size ?f2 = Some 500" by simp
  have ord: "\<not> lower (name ?f1) \<le> lower (name ?f2)" by code_simp
  show ?thesis
    using two_file_scan [OF h1 h2 h3 h4, of "''.''"] ord by simp
qed

end
